theory Spec2Isabelle
  imports Complex_Main
begin

section \<open>Errors\<close>

text \<open>
  The exceptions that can leave \<open>fit\<close> and \<open>decision_function\<close>. A raised exception is
  the \<open>Inl\<close> branch of a sum. \<open>UnboundLocalError\<close> is Python's error for reading a local
  variable that no statement has assigned yet, \<open>AttributeError\<close> the one for
  \<open>None.eval()\<close>; the others are raised by the libraries.
\<close>

datatype error = AttributeError | UnboundLocalError | NotFittedError | RuntimeError | ValueError

section \<open>Tensors and the loss functions of the tensor library\<close>

text \<open>
  A two-dimensional tensor of shape \<open>N x d\<close>: the number of columns is kept beside the
  rows, so that \<open>x.shape[1]\<close> is defined for \<open>N = 0\<close> too. Entries are real numbers: the
  rounding of floating-point arithmetic is not modelled.
\<close>

record tensor =
  ncols :: nat
  rows :: "real list list"

definition nrows :: "tensor \<Rightarrow> nat" where
  "nrows t = length (rows t)"

definition wf_tensor :: "tensor \<Rightarrow> bool" where
  "wf_tensor t = list_all (\<lambda>r. length r = ncols t) (rows t)"

definition same_shape :: "tensor \<Rightarrow> tensor \<Rightarrow> bool" where
  "same_shape a b =
     (ncols a = ncols b \<and> list_all2 (\<lambda>r s. length r = length s) (rows a) (rows b))"

definition sq_diff_row :: "real list \<Rightarrow> real list \<Rightarrow> real list" where
  "sq_diff_row a b = map2 (\<lambda>u v. (u - v)\<^sup>2) a b"

definition sq_diff :: "tensor \<Rightarrow> tensor \<Rightarrow> tensor" where
  "sq_diff a b = \<lparr>ncols = ncols b, rows = map2 sq_diff_row (rows a) (rows b)\<rparr>"

definition mean_all :: "tensor \<Rightarrow> real" where
  "mean_all t = sum_list (concat (rows t)) / real (nrows t * ncols t)"

definition torch_mean_dim1 :: "tensor \<Rightarrow> real list" where
  "torch_mean_dim1 t = map (\<lambda>r. sum_list r / real (ncols t)) (rows t)"

text \<open>
  \<open>F.mse_loss(input, target)\<close> with the default reduction (the mean over all entries)
  and with \<open>reduction='none'\<close> (the tensor of squared differences). Both raise when the
  shapes differ. (The library would broadcast a dimension of size one; a network whose
  last layer has \<open>x.shape[1]\<close> outputs never produces that case.) A mean over no entries
  is NaN in the library and has no counterpart here: the theorems about means assume
  a positive number of entries.
\<close>

definition mse_loss :: "tensor \<Rightarrow> tensor \<Rightarrow> error + real" where
  "mse_loss a b = (if same_shape a b then Inr (mean_all (sq_diff a b)) else Inl RuntimeError)"

definition mse_loss_none :: "tensor \<Rightarrow> tensor \<Rightarrow> error + tensor" where
  "mse_loss_none a b = (if same_shape a b then Inr (sq_diff a b) else Inl RuntimeError)"

section \<open>The libraries the detector calls\<close>

text \<open>
  The network, the optimiser, automatic differentiation and the AUC metric belong to
  the libraries, so they are parameters of the model. \<open>'p\<close> is the type of the network's
  parameters (and of their gradients), \<open>'o\<close> the optimiser's state, \<open>'r\<close> the state of
  the library's random number generator, which the constructor of the network and every
  forward pass with dropout advance.

  \<^item> \<open>MLP channel_list dropout relu_first batch_norm\<close> builds the network;
  \<^item> \<open>forward_train\<close> and \<open>forward_eval\<close> are the forward pass in training mode (dropout
    is drawn) and in evaluation mode (no random draw);
  \<^item> \<open>Adam params lr weight_decay\<close> builds the optimiser;
  \<^item> \<open>backward l p r x\<close> is the gradient, with respect to the parameters \<open>p\<close>, of the
    scalar \<open>l\<close> of the output of the training-mode forward pass on \<open>x\<close> under the random
    state \<open>r\<close>;
  \<^item> \<open>step opt grad p\<close> is one update of the optimiser;
  \<^item> \<open>roc_auc_score labels scores\<close> is the AUC metric.
\<close>

record ('p, 'o, 'r) torch =
  cuda_is_available :: bool
  MLP :: "int list \<Rightarrow> real \<Rightarrow> bool \<Rightarrow> bool \<Rightarrow> 'r \<Rightarrow> error + 'p \<times> 'r"
  forward_train :: "'p \<Rightarrow> 'r \<Rightarrow> tensor \<Rightarrow> error + tensor \<times> 'r"
  forward_eval :: "'p \<Rightarrow> tensor \<Rightarrow> error + tensor"
  Adam :: "'p \<Rightarrow> real \<Rightarrow> real \<Rightarrow> error + 'o"
  backward :: "(tensor \<Rightarrow> real) \<Rightarrow> 'p \<Rightarrow> 'r \<Rightarrow> tensor \<Rightarrow> 'p"
  step :: "'o \<Rightarrow> 'p \<Rightarrow> 'p \<Rightarrow> 'p \<times> 'o"
  roc_auc_score :: "int list \<Rightarrow> real list \<Rightarrow> error + real"

text \<open>A network object: its parameters and the mode flag set by \<open>train()\<close> and \<open>eval()\<close>.\<close>

record 'p module =
  params :: 'p
  training :: bool

definition train :: "'p module \<Rightarrow> 'p module" where
  "train m = m\<lparr>training := True\<rparr>"

definition eval_mode :: "'p module \<Rightarrow> 'p module" where
  "eval_mode m = m\<lparr>training := False\<rparr>"

definition module_call ::
  "('p, 'o, 'r) torch \<Rightarrow> 'p module \<Rightarrow> 'r \<Rightarrow> tensor \<Rightarrow> error + tensor \<times> 'r" where
  "module_call L m r t =
     (if training m then forward_train L (params m) r t
      else (case forward_eval L (params m) t of
              Inl e \<Rightarrow> Inl e
            | Inr out \<Rightarrow> Inr (out, r)))"

section \<open>The detector\<close>

datatype device = Cuda int | Cpu

text \<open>
  The attributes of an \<open>MLPAE\<close> object. \<open>base\<close> holds what the base class keeps
  (\<open>contamination\<close> and whatever \<open>_process_decision_scores\<close> derives); \<open>model = None\<close> is
  Python's \<open>None\<close>; \<open>decision_scores = None\<close> says that the attribute \<open>decision_scores_\<close>
  has not been assigned.
\<close>

record ('p, 'b) MLPAE =
  base :: 'b
  hid_dim :: int
  num_layers :: int
  dropout :: real
  weight_decay :: real
  act :: "(real \<Rightarrow> real) option"
  lr :: real
  epoch :: int
  device :: device
  verbose :: bool
  model :: "'p module option"
  decision_scores :: "real list option"

text \<open>A PyG \<open>Data\<close> object: the node features \<open>G.x\<close> and the node labels \<open>G.y\<close>.\<close>

record data =
  data_x :: tensor
  data_y :: "int list"

definition init ::
  "('p, 'o, 'r) torch \<Rightarrow> (real \<Rightarrow> error + 'b) \<Rightarrow> int \<Rightarrow> int \<Rightarrow> real \<Rightarrow> real \<Rightarrow>
   (real \<Rightarrow> real) option \<Rightarrow> real \<Rightarrow> real \<Rightarrow> int \<Rightarrow> int \<Rightarrow> bool \<Rightarrow> error + ('p, 'b) MLPAE" where
  "init L base_init hid nl dr wd a contamination rate ep gpu vb =
     (case base_init contamination of
        Inl e \<Rightarrow> Inl e
      | Inr b \<Rightarrow>
          Inr \<lparr>base = b, hid_dim = hid, num_layers = nl, dropout = dr, weight_decay = wd,
               act = a, lr = rate, epoch = ep,
               device = (if gpu \<ge> 0 \<and> cuda_is_available L then Cuda gpu else Cpu),
               verbose = vb, model = None, decision_scores = None\<rparr>)"

definition to_device :: "tensor \<Rightarrow> device \<Rightarrow> tensor" where
  "to_device t d = t"

definition process_graph :: "('p, 'b) MLPAE \<Rightarrow> data \<Rightarrow> tensor \<times> int list" where
  "process_graph st G = (to_device (data_x G) (device st), data_y G)"

subsection \<open>The layer sizes\<close>

text \<open>\<open>for _ in range(n): channel_list.append(h)\<close>\<close>

fun append_hidden :: "nat \<Rightarrow> int \<Rightarrow> int list \<Rightarrow> int list" where
  "append_hidden 0 h cl = cl"
| "append_hidden (Suc n) h cl = append_hidden n h (cl @ [h])"

definition channel_list :: "('p, 'b) MLPAE \<Rightarrow> tensor \<Rightarrow> int list" where
  "channel_list st x =
     append_hidden (nat (num_layers st - 1)) (hid_dim st) [int (ncols x)] @ [int (ncols x)]"

subsection \<open>The training loop\<close>

text \<open>
  One entry per executed loop body: the parameters, optimiser state and random state
  the iteration started from, the output, loss and scores it computed, and the
  parameters its optimiser update produced. The list of entries is the trace of the run;
  it is not a Python value.
\<close>

record ('p, 'o, 'r) iteration =
  it_params :: 'p
  it_opt :: 'o
  it_rng :: 'r
  it_out :: tensor
  it_loss :: real
  it_score :: "real list"
  it_after :: 'p

text \<open>A printed line: the epoch, the loss and the AUC that the format string is filled with.\<close>

type_synonym log_line = "nat \<times> real \<times> real"

text \<open>
  The variables of the loop: the network, the optimiser, the random state, the local
  variable \<open>score\<close> (\<open>None\<close> while unassigned), the lines printed, and the trace.
\<close>

record ('p, 'o, 'r) loop_state =
  l_model :: "'p module"
  l_opt :: 'o
  l_rng :: 'r
  l_score :: "real list option"
  l_stdout :: "log_line list"
  l_hist :: "('p, 'o, 'r) iteration list"

definition epoch_body ::
  "('p, 'o, 'r) torch \<Rightarrow> bool \<Rightarrow> tensor \<Rightarrow> int list \<Rightarrow> nat \<Rightarrow> ('p, 'o, 'r) loop_state \<Rightarrow>
   error + ('p, 'o, 'r) loop_state" where
  "epoch_body L vb x labels k s =
     (let m = train (l_model s) in
      case module_call L m (l_rng s) x of
        Inl e \<Rightarrow> Inl e
      | Inr (x', r') \<Rightarrow>
         (case mse_loss x' x of
            Inl e \<Rightarrow> Inl e
          | Inr loss \<Rightarrow>
             (let grad = backward L (\<lambda>out. mean_all (sq_diff out x)) (params m) (l_rng s) x;
                  (p', opt') = step L (l_opt s) grad (params m);
                  m' = m\<lparr>params := p'\<rparr>
              in case mse_loss_none x' x of
                   Inl e \<Rightarrow> Inl e
                 | Inr sq \<Rightarrow>
                    (let score = torch_mean_dim1 sq;
                         entry = \<lparr>it_params = params m, it_opt = l_opt s, it_rng = l_rng s,
                                  it_out = x', it_loss = loss, it_score = score,
                                  it_after = p'\<rparr>;
                         s' = \<lparr>l_model = m', l_opt = opt', l_rng = r', l_score = Some score,
                               l_stdout = l_stdout s, l_hist = l_hist s @ [entry]\<rparr>
                     in if vb then
                          (case roc_auc_score L labels score of
                             Inl e \<Rightarrow> Inl e
                           | Inr auc \<Rightarrow> Inr (s'\<lparr>l_stdout := l_stdout s @ [(k, loss, auc)]\<rparr>))
                        else Inr s'))))"

text \<open>\<open>for epoch in range(n)\<close>: \<open>n\<close> bodies, the index counting up from \<open>k\<close>.\<close>

fun train_loop ::
  "('p, 'o, 'r) torch \<Rightarrow> bool \<Rightarrow> tensor \<Rightarrow> int list \<Rightarrow> nat \<Rightarrow> nat \<Rightarrow> ('p, 'o, 'r) loop_state \<Rightarrow>
   error + ('p, 'o, 'r) loop_state" where
  "train_loop L vb x labels 0 k s = Inr s"
| "train_loop L vb x labels (Suc n) k s =
     (case epoch_body L vb x labels k s of
        Inl e \<Rightarrow> Inl e
      | Inr s' \<Rightarrow> train_loop L vb x labels n (Suc k) s')"

subsection \<open>fit\<close>

text \<open>
  What a successful \<open>fit\<close> leaves: the object, the random state, the printed lines and
  the trace of the loop.
\<close>

record ('p, 'o, 'r, 'b) fit_result =
  fitted :: "('p, 'b) MLPAE"
  rng_after :: 'r
  stdout :: "log_line list"
  history :: "('p, 'o, 'r) iteration list"

text \<open>
  \<open>pds\<close> is \<open>_process_decision_scores\<close> of the base class \<open>BaseDetector\<close>, which is
  defined in another module: a parameter that reads and updates the object. A fresh
  network object is in training mode. An exception is returned without the object:
  what a failed \<open>fit\<close> leaves behind is not modelled.
\<close>

definition fit ::
  "('p, 'o, 'r) torch \<Rightarrow> (('p, 'b) MLPAE \<Rightarrow> error + ('p, 'b) MLPAE) \<Rightarrow> ('p, 'b) MLPAE \<Rightarrow> 'r \<Rightarrow>
   data \<Rightarrow> error + ('p, 'o, 'r, 'b) fit_result" where
  "fit L pds st r G =
     (let (x, labels) = process_graph st G;
          relu_first = (act st \<noteq> None)
      in case MLP L (channel_list st x) (dropout st) relu_first False r of
           Inl e \<Rightarrow> Inl e
         | Inr (p, r1) \<Rightarrow>
            (let m = \<lparr>params = p, training = True\<rparr> in
             case Adam L p (lr st) (weight_decay st) of
               Inl e \<Rightarrow> Inl e
             | Inr opt \<Rightarrow>
                (case train_loop L (verbose st) x labels (nat (epoch st)) 0
                        \<lparr>l_model = m, l_opt = opt, l_rng = r1, l_score = None,
                         l_stdout = [], l_hist = []\<rparr> of
                   Inl e \<Rightarrow> Inl e
                 | Inr s \<Rightarrow>
                    (case l_score s of
                       None \<Rightarrow> Inl UnboundLocalError
                     | Some score \<Rightarrow>
                        (case pds (st\<lparr>model := Some (l_model s),
                                      decision_scores := Some score\<rparr>) of
                           Inl e \<Rightarrow> Inl e
                         | Inr st' \<Rightarrow>
                             Inr \<lparr>fitted = st', rng_after = l_rng s,
                                  stdout = l_stdout s, history = l_hist s\<rparr>)))))"

subsection \<open>decision_function\<close>

text \<open>
  \<open>check_is_fitted(self, ['model'])\<close> of scikit-learn raises \<open>NotFittedError\<close> unless the
  object has every listed attribute. Of the attributes that this class assigns,
  \<open>__init__\<close> assigns all but \<open>decision_scores_\<close>, which \<open>fit\<close> assigns.
\<close>

definition hasattr :: "('p, 'b) MLPAE \<Rightarrow> string \<Rightarrow> bool" where
  "hasattr st a =
     (if a = ''decision_scores_'' then decision_scores st \<noteq> None
      else a \<in> set [''hid_dim'', ''num_layers'', ''dropout'', ''weight_decay'', ''act'',
                     ''lr'', ''epoch'', ''device'', ''verbose'', ''model''])"

definition check_is_fitted :: "('p, 'b) MLPAE \<Rightarrow> string list \<Rightarrow> error + unit" where
  "check_is_fitted st attrs = (if list_all (hasattr st) attrs then Inr () else Inl NotFittedError)"

text \<open>
  The result, the object after the call and the random state after the call. An
  exception leaves the object as the statements before it have made it.
\<close>

definition decision_function ::
  "('p, 'o, 'r) torch \<Rightarrow> ('p, 'b) MLPAE \<Rightarrow> 'r \<Rightarrow> data \<Rightarrow>
   (error + real list) \<times> ('p, 'b) MLPAE \<times> 'r" where
  "decision_function L st r G =
     (case check_is_fitted st [''model''] of
        Inl e \<Rightarrow> (Inl e, st, r)
      | Inr _ \<Rightarrow>
         (case model st of
            None \<Rightarrow> (Inl AttributeError, st, r)
          | Some m \<Rightarrow>
             (let st1 = st\<lparr>model := Some (eval_mode m)\<rparr>;
                  (x0, _) = process_graph st1 G;
                  x = to_device x0 (device st1)
              in case module_call L (eval_mode m) r x of
                   Inl e \<Rightarrow> (Inl e, st1, r)
                 | Inr (x', r') \<Rightarrow>
                    (case mse_loss_none x' x of
                       Inl e \<Rightarrow> (Inl e, st1, r')
                     | Inr sq \<Rightarrow> (Inr (torch_mean_dim1 sq), st1, r')))))"

section \<open>The quantities the properties are stated with\<close>

text \<open>
  The reconstruction error of node \<open>i\<close>: the mean, over the \<open>d\<close> feature dimensions, of
  the squared difference between row \<open>i\<close> of the output \<open>a\<close> and row \<open>i\<close> of the
  input \<open>b\<close>.
\<close>

definition reconstruction_error :: "tensor \<Rightarrow> tensor \<Rightarrow> nat \<Rightarrow> real" where
  "reconstruction_error a b i =
     (\<Sum>j<ncols b. (rows a ! i ! j - rows b ! i ! j)\<^sup>2) / real (ncols b)"

text \<open>
  The mean squared error: the mean, over all \<open>N * d\<close> entries, of the squared
  element-wise difference.
\<close>

definition mean_squared_error :: "tensor \<Rightarrow> tensor \<Rightarrow> real" where
  "mean_squared_error a b =
     (\<Sum>i<nrows b. \<Sum>j<ncols b. (rows a ! i ! j - rows b ! i ! j)\<^sup>2) / real (nrows b * ncols b)"


text \<open>
  What some properties assume of \<open>_process_decision_scores\<close>: when it returns, it has
  left \<open>decision_scores_\<close>, respectively \<open>model\<close>, as it found it.
\<close>

definition keeps_scores :: "(('p, 'b) MLPAE \<Rightarrow> error + ('p, 'b) MLPAE) \<Rightarrow> bool" where
  "keeps_scores pds = (\<forall>s s'. pds s = Inr s' \<longrightarrow> decision_scores s' = decision_scores s)"

definition keeps_model :: "(('p, 'b) MLPAE \<Rightarrow> error + ('p, 'b) MLPAE) \<Rightarrow> bool" where
  "keeps_model pds = (\<forall>s s'. pds s = Inr s' \<longrightarrow> model s' = model s)"

text \<open>
  One update of the parameters: the optimiser's step along the gradient of the loss
  \<open>mean_all (sq_diff out x)\<close> of the output, as the loop body computes it.
\<close>

definition update :: "('p, 'o, 'r) torch \<Rightarrow> tensor \<Rightarrow> 'p \<Rightarrow> 'o \<Rightarrow> 'r \<Rightarrow> 'p \<times> 'o" where
  "update L x p opt r = step L opt (backward L (\<lambda>out. mean_all (sq_diff out x)) p r x) p"

text \<open>
  What a trace entry records: the output is the one of the training-mode forward pass
  from the entry's parameters, it has the shape of the input, the loss and the scores
  are computed from it, and the parameters after are one update of the parameters before.
\<close>

definition entry_ok :: "('p, 'o, 'r) torch \<Rightarrow> tensor \<Rightarrow> ('p, 'o, 'r) iteration \<Rightarrow> bool" where
  "entry_ok L x e =
     ((case forward_train L (it_params e) (it_rng e) x of
         Inl _ \<Rightarrow> False
       | Inr (out, _) \<Rightarrow> out = it_out e)
      \<and> same_shape (it_out e) x
      \<and> it_loss e = mean_all (sq_diff (it_out e) x)
      \<and> it_score e = torch_mean_dim1 (sq_diff (it_out e) x)
      \<and> it_after e = fst (update L x (it_params e) (it_opt e) (it_rng e)))"

text \<open>Each entry of a trace starts from the parameters the entry before it produced.\<close>

fun starts_from :: "'p \<Rightarrow> ('p, 'o, 'r) iteration list \<Rightarrow> bool" where
  "starts_from p [] = True"
| "starts_from p (e # es) = (it_params e = p \<and> starts_from (it_after e) es)"

text \<open>The invariant of the loop before iteration \<open>k\<close>.\<close>

definition loop_inv ::
  "('p, 'o, 'r) torch \<Rightarrow> tensor \<Rightarrow> 'p \<Rightarrow> nat \<Rightarrow> ('p, 'o, 'r) loop_state \<Rightarrow> bool" where
  "loop_inv L x p0 k s =
     (length (l_hist s) = k
      \<and> list_all (entry_ok L x) (l_hist s)
      \<and> starts_from p0 (l_hist s)
      \<and> params (l_model s) = (if l_hist s = [] then p0 else it_after (last (l_hist s)))
      \<and> (l_hist s = [] \<or> l_score s = Some (it_score (last (l_hist s)))))"

section \<open>A small instance of the libraries\<close>

text \<open>
  A concrete instance on which the theorems below are exercised: a network with one
  parameter \<open>w\<close> that multiplies every entry by \<open>w\<close>, a random state that counts the
  draws, plain gradient descent as the optimiser, and a central difference (exact for
  this network, whose loss is quadratic in \<open>w\<close>) as the gradient.
\<close>

definition scale :: "real \<Rightarrow> tensor \<Rightarrow> tensor" where
  "scale w t = t\<lparr>rows := map (map (\<lambda>v. w * v)) (rows t)\<rparr>"

definition toy_torch :: "(real, real, nat) torch" where
  "toy_torch =
     \<lparr>cuda_is_available = False,
      MLP = (\<lambda>cl dr rf bn r. if length cl < 2 then Inl ValueError else Inr (0, Suc r)),
      forward_train = (\<lambda>p r t. Inr (scale p t, Suc r)),
      forward_eval = (\<lambda>p t. Inr (scale p t)),
      Adam = (\<lambda>p a wd. if a < 0 then Inl ValueError else Inr a),
      backward = (\<lambda>l p r t. (l (scale (p + 1) t) - l (scale (p - 1) t)) / 2),
      step = (\<lambda>opt g p. (p - opt * g, opt)),
      roc_auc_score = (\<lambda>labels score.
         if length labels \<noteq> length score then Inl ValueError else Inr (1 / 2))\<rparr>"

definition toy_base_init :: "real \<Rightarrow> error + real \<times> real option" where
  "toy_base_init c = (if 0 < c \<and> c \<le> 1 / 2 then Inr (c, None) else Inl ValueError)"

definition toy_pds ::
  "(real, real \<times> real option) MLPAE \<Rightarrow> error + (real, real \<times> real option) MLPAE" where
  "toy_pds st =
     (case decision_scores st of
        None \<Rightarrow> Inl AttributeError
      | Some sc \<Rightarrow> Inr (st\<lparr>base := (fst (base st), Some (sum_list sc))\<rparr>))"

definition relu :: "real \<Rightarrow> real" where
  "relu v = max 0 v"

definition toy_detector :: "int \<Rightarrow> bool \<Rightarrow> (real, real \<times> real option) MLPAE" where
  "toy_detector ep vb =
     \<lparr>base = (1 / 10, None), hid_dim = 64, num_layers = 4, dropout = 3 / 10,
      weight_decay = 0, act = Some relu, lr = 1 / 2, epoch = ep, device = Cpu, verbose = vb,
      model = None, decision_scores = None\<rparr>"

definition toy_G :: data where
  "toy_G = \<lparr>data_x = \<lparr>ncols = 2, rows = [[1, 0], [0, 1]]\<rparr>, data_y = [0, 1]\<rparr>"

text \<open>What \<open>fit\<close> returns on this instance, started from the random state \<open>0\<close>.\<close>

definition toy_run :: "int \<Rightarrow> bool \<Rightarrow> (real, real, nat, real \<times> real option) fit_result" where
  "toy_run ep vb = projr (fit toy_torch toy_pds (toy_detector ep vb) 0 toy_G)"




section \<open>The layer sizes passed to the network's constructor\<close>

lemma append_hidden_replicate: "append_hidden n h cl = cl @ replicate n h"
proof (induction n arbitrary: cl)
  case 0
  show ?case by simp
next
  case (Suc n)
  have "append_hidden (Suc n) h cl = (cl @ [h]) @ replicate n h"
    using Suc.IH [of "cl @ [h]"] by simp
  then show ?case by simp
qed




section \<open>Calling decision_function before fit\<close>

text \<open>
  C3. On an object that \<open>__init__\<close> has just built, \<open>decision_function\<close> raises: the
  attribute \<open>model\<close> exists, so \<open>check_is_fitted\<close> passes, and \<open>self.model.eval()\<close> on
  \<open>None\<close> raises \<open>AttributeError\<close>. The object and the random state are left as they were.
\<close>

theorem decision_function_before_fit:
  assumes "init L0 base_init hid nl dr wd a c rate ep gpu vb = Inr st"
  shows "decision_function L st r G = (Inl AttributeError, st, r)"
proof -
  from assms have "model st = None"
    by (auto simp: init_def split: sum.splits)
  then show ?thesis
    by (simp add: decision_function_def check_is_fitted_def hasattr_def)
qed

theorem decision_function_before_fit_witness:
  "init toy_torch toy_base_init 64 4 (3 / 10) 0 (Some relu) (1 / 10) (1 / 2) 100 0 False
     = Inr (toy_detector 100 False)
   \<and> decision_function toy_torch (toy_detector 100 False) (0::nat) toy_G
     = (Inl AttributeError, toy_detector 100 False, 0)"
proof -
  have h: "init toy_torch toy_base_init 64 4 (3 / 10) 0 (Some relu) (1 / 10) (1 / 2) 100 0 False
     = Inr (toy_detector 100 False)"
    by (simp add: init_def toy_base_init_def toy_detector_def toy_torch_def)
  show ?thesis
    using h decision_function_before_fit [OF h, of toy_torch 0 toy_G] by simp
qed

section \<open>Means of squared differences\<close>

lemma sum_list_sq_diff_row:
  assumes "length a = length b"
  shows "sum_list (sq_diff_row a b) = (\<Sum>j<length b. (a ! j - b ! j)\<^sup>2)"
proof -
  have "sum_list (sq_diff_row a b) = (\<Sum>j = 0..<length (sq_diff_row a b). sq_diff_row a b ! j)"
    by (rule sum_list_sum_nth)
  also have "\<dots> = (\<Sum>j = 0..<length b. (a ! j - b ! j)\<^sup>2)"
    using assms by (intro sum.cong) (simp_all add: sq_diff_row_def)
  finally show ?thesis by (simp add: atLeast0LessThan)
qed

lemma same_shape_rows:
  assumes "same_shape a b" "wf_tensor b"
  shows "length (rows a) = nrows b"
    and "i < nrows b \<Longrightarrow> length (rows a ! i) = ncols b"
    and "i < nrows b \<Longrightarrow> length (rows b ! i) = ncols b"
  using assms
  by (simp_all add: same_shape_def wf_tensor_def nrows_def list_all2_conv_all_nth list_all_length)

lemma sq_diff_row_sum:
  assumes "same_shape a b" "wf_tensor b" "i < nrows b"
  shows "sum_list (rows (sq_diff a b) ! i) = (\<Sum>j<ncols b. (rows a ! i ! j - rows b ! i ! j)\<^sup>2)"
proof -
  have n: "length (rows a) = length (rows b)" "i < length (rows b)"
    using same_shape_rows(1) [OF assms(1,2)] assms(3) by (simp_all add: nrows_def)
  have "rows (sq_diff a b) ! i = sq_diff_row (rows a ! i) (rows b ! i)"
    using n by (simp add: sq_diff_def)
  moreover have "length (rows a ! i) = length (rows b ! i)" "length (rows b ! i) = ncols b"
    using same_shape_rows(2,3) [OF assms] by simp_all
  ultimately show ?thesis
    using sum_list_sq_diff_row [of "rows a ! i" "rows b ! i"] by simp
qed

lemma nrows_sq_diff:
  assumes "same_shape a b" "wf_tensor b"
  shows "nrows (sq_diff a b) = nrows b"
  using same_shape_rows(1) [OF assms] by (simp add: sq_diff_def nrows_def)

lemma torch_mean_dim1_sq_diff:
  assumes "same_shape a b" "wf_tensor b"
  shows "length (torch_mean_dim1 (sq_diff a b)) = nrows b"
    and "i < nrows b \<Longrightarrow> torch_mean_dim1 (sq_diff a b) ! i = reconstruction_error a b i"
proof -
  show len: "length (torch_mean_dim1 (sq_diff a b)) = nrows b"
    using nrows_sq_diff [OF assms] by (simp add: torch_mean_dim1_def nrows_def)
  assume i: "i < nrows b"
  then have "i < length (rows (sq_diff a b))"
    using nrows_sq_diff [OF assms] by (simp add: nrows_def)
  then have "torch_mean_dim1 (sq_diff a b) ! i
      = sum_list (rows (sq_diff a b) ! i) / real (ncols (sq_diff a b))"
    by (simp add: torch_mean_dim1_def)
  also have "\<dots> = reconstruction_error a b i"
    using sq_diff_row_sum [OF assms i] by (simp add: reconstruction_error_def sq_diff_def)
  finally show "torch_mean_dim1 (sq_diff a b) ! i = reconstruction_error a b i" .
qed

lemma sum_list_concat_rows: "sum_list (concat xss) = sum_list (map sum_list (xss :: real list list))"
  by (induction xss) simp_all

lemma mean_all_sq_diff:
  assumes "same_shape a b" "wf_tensor b"
  shows "mean_all (sq_diff a b) = mean_squared_error a b"
proof -
  let ?rs = "rows (sq_diff a b)"
  have len: "length ?rs = nrows b"
    using nrows_sq_diff [OF assms] by (simp add: nrows_def)
  have "sum_list (concat ?rs) = sum_list (map sum_list ?rs)"
    by (rule sum_list_concat_rows)
  also have "\<dots> = (\<Sum>i = 0..<length ?rs. sum_list (?rs ! i))"
    by (simp add: sum_list_sum_nth)
  also have "\<dots> = (\<Sum>i = 0..<nrows b. \<Sum>j<ncols b. (rows a ! i ! j - rows b ! i ! j)\<^sup>2)"
    unfolding len using sq_diff_row_sum [OF assms] by (intro sum.cong) simp_all
  finally have "sum_list (concat ?rs)
      = (\<Sum>i<nrows b. \<Sum>j<ncols b. (rows a ! i ! j - rows b ! i ! j)\<^sup>2)"
    by (simp add: atLeast0LessThan)
  moreover have "nrows (sq_diff a b) * ncols (sq_diff a b) = nrows b * ncols b"
    using len by (simp add: sq_diff_def nrows_def)
  ultimately show ?thesis
    by (simp add: mean_all_def mean_squared_error_def)
qed

section \<open>The scores of decision_function\<close>

text \<open>
  C1. On a fitted object (\<open>model\<close> holds a network \<open>m\<close>) and a graph whose features \<open>x\<close>
  have shape \<open>N x d\<close> with \<open>d > 0\<close>, when the evaluation-mode forward pass of \<open>m\<close> on \<open>x\<close>
  returns \<open>out\<close> of the same shape, \<open>decision_function\<close> returns \<open>N\<close> scores, and the
  score of node \<open>i\<close> is the mean over the \<open>d\<close> feature dimensions of the squared
  difference between row \<open>i\<close> of \<open>out\<close> and row \<open>i\<close> of \<open>x\<close>.
\<close>

theorem decision_function_scores:
  assumes "model st = Some m"
    and "wf_tensor (data_x G)" and "0 < ncols (data_x G)"
    and "forward_eval L (params m) (data_x G) = Inr out"
    and "same_shape out (data_x G)"
  shows "\<exists>scores. fst (decision_function L st r G) = Inr scores
           \<and> length scores = nrows (data_x G)
           \<and> (\<forall>i<nrows (data_x G). scores ! i = reconstruction_error out (data_x G) i)"
proof -
  have "fst (decision_function L st r G) = Inr (torch_mean_dim1 (sq_diff out (data_x G)))"
    using assms(1,4,5)
    by (simp add: decision_function_def check_is_fitted_def hasattr_def process_graph_def
          to_device_def module_call_def eval_mode_def mse_loss_none_def)
  then show ?thesis
    using torch_mean_dim1_sq_diff [OF assms(5,2)] by simp
qed


lemma toy_fit_verbose: "fit toy_torch toy_pds (toy_detector 2 True) 0 toy_G = Inr (toy_run 2 True)"
proof -
  have "\<not> isl (fit toy_torch toy_pds (toy_detector 2 True) 0 toy_G)" by code_simp
  then show ?thesis by (simp add: toy_run_def)
qed

lemma toy_fit_two: "fit toy_torch toy_pds (toy_detector 2 False) 0 toy_G = Inr (toy_run 2 False)"
proof -
  have "\<not> isl (fit toy_torch toy_pds (toy_detector 2 False) 0 toy_G)" by code_simp
  then show ?thesis by (simp add: toy_run_def)
qed


lemma toy_model_fitted:
  "model (fitted (toy_run 1 False)) = Some \<lparr>params = 1 / 2, training = True\<rparr>"
  by code_simp

lemma toy_G_shape:
  "wf_tensor (data_x toy_G)" "0 < nrows (data_x toy_G)" "0 < ncols (data_x toy_G)"
  by (simp_all add: toy_G_def wf_tensor_def nrows_def)

lemma toy_pds_keeps: "keeps_scores toy_pds" "keeps_model toy_pds"
  by (auto simp: keeps_scores_def keeps_model_def toy_pds_def split: option.splits)

theorem decision_function_scores_witness:
  "model (fitted (toy_run 1 False)) = Some \<lparr>params = 1 / 2, training = True\<rparr>
   \<and> wf_tensor (data_x toy_G) \<and> 0 < ncols (data_x toy_G)
   \<and> forward_eval toy_torch (1 / 2) (data_x toy_G) = Inr (scale (1 / 2) (data_x toy_G))
   \<and> same_shape (scale (1 / 2) (data_x toy_G)) (data_x toy_G)
   \<and> (\<exists>scores. fst (decision_function toy_torch (fitted (toy_run 1 False)) 0 toy_G) = Inr scores
         \<and> length scores = nrows (data_x toy_G)
         \<and> (\<forall>i<nrows (data_x toy_G).
               scores ! i = reconstruction_error (scale (1 / 2) (data_x toy_G)) (data_x toy_G) i))
   \<and> fst (decision_function toy_torch (fitted (toy_run 1 False)) 0 toy_G) = Inr [1 / 8, 1 / 8]"
proof -
  have fw: "forward_eval toy_torch (params \<lparr>params = 1 / 2, training = True\<rparr>) (data_x toy_G)
      = Inr (scale (1 / 2) (data_x toy_G))"
    by (simp add: toy_torch_def)
  have sh: "same_shape (scale (1 / 2) (data_x toy_G)) (data_x toy_G)"
    by (simp add: same_shape_def scale_def toy_G_def)
  have val: "fst (decision_function toy_torch (fitted (toy_run 1 False)) 0 toy_G) = Inr [1 / 8, 1 / 8]"
    by code_simp
  show ?thesis
    using toy_model_fitted toy_G_shape(1,3) fw sh val
      decision_function_scores [OF toy_model_fitted toy_G_shape(1,3) fw sh, of 0]
    by simp
qed

section \<open>The training loop\<close>

lemma epoch_body_Inr:
  assumes "epoch_body L vb x labels k s = Inr s'"
  obtains out r' where
    "forward_train L (params (l_model s)) (l_rng s) x = Inr (out, r')"
    "same_shape out x"
    "l_model s' = \<lparr>params = fst (update L x (params (l_model s)) (l_opt s) (l_rng s)),
                   training = True\<rparr>"
    "l_opt s' = snd (update L x (params (l_model s)) (l_opt s) (l_rng s))"
    "l_rng s' = r'"
    "l_score s' = Some (torch_mean_dim1 (sq_diff out x))"
    "l_hist s' = l_hist s @
       [\<lparr>it_params = params (l_model s), it_opt = l_opt s, it_rng = l_rng s, it_out = out,
         it_loss = mean_all (sq_diff out x), it_score = torch_mean_dim1 (sq_diff out x),
         it_after = fst (update L x (params (l_model s)) (l_opt s) (l_rng s))\<rparr>]"
    "if vb
     then (case roc_auc_score L labels (torch_mean_dim1 (sq_diff out x)) of
             Inl _ \<Rightarrow> False
           | Inr auc \<Rightarrow> l_stdout s' = l_stdout s @ [(k, mean_all (sq_diff out x), auc)])
     else l_stdout s' = l_stdout s"
  using assms
  unfolding epoch_body_def module_call_def train_def mse_loss_def mse_loss_none_def
    update_def Let_def
  by (auto split: sum.splits prod.splits if_splits)

lemma train_loop_invariant:
  assumes "train_loop L vb x labels n k s = Inr s'"
    and "I k s"
    and "\<And>j t t'. I j t \<Longrightarrow> epoch_body L vb x labels j t = Inr t' \<Longrightarrow> I (Suc j) t'"
  shows "I (k + n) s'"
  using assms(1,2)
proof (induction n arbitrary: k s)
  case 0
  then show ?case by simp
next
  case (Suc n)
  from Suc.prems(1) obtain t where t: "epoch_body L vb x labels k s = Inr t"
    and rest: "train_loop L vb x labels n (Suc k) t = Inr s'"
    by (auto split: sum.splits)
  have "I (Suc k) t" using assms(3) [OF Suc.prems(2) t] .
  from Suc.IH [OF rest this] show ?case by simp
qed

lemma fit_Inr:
  assumes "fit L pds st r G = Inr res"
  obtains p r1 opt s score where
    "MLP L (channel_list st (data_x G)) (dropout st) (act st \<noteq> None) False r = Inr (p, r1)"
    "Adam L p (lr st) (weight_decay st) = Inr opt"
    "train_loop L (verbose st) (data_x G) (data_y G) (nat (epoch st)) 0
       \<lparr>l_model = \<lparr>params = p, training = True\<rparr>, l_opt = opt, l_rng = r1, l_score = None,
        l_stdout = [], l_hist = []\<rparr> = Inr s"
    "l_score s = Some score"
    "pds (st\<lparr>model := Some (l_model s), decision_scores := Some score\<rparr>) = Inr (fitted res)"
    "history res = l_hist s" "stdout res = l_stdout s" "rng_after res = l_rng s"
  using assms
  unfolding fit_def process_graph_def to_device_def Let_def
  by (auto split: sum.splits prod.splits option.splits simp del: not_None_eq)

lemma starts_from_snoc:
  "starts_from p (es @ [e]) =
     (starts_from p es \<and> it_params e = (if es = [] then p else it_after (last es)))"
  by (induction es arbitrary: p) auto

lemma loop_inv_step:
  assumes "loop_inv L x p0 j t" and "epoch_body L vb x labels j t = Inr t'"
  shows "loop_inv L x p0 (Suc j) t'"
proof -
  from assms(2) obtain out r' where
    fw: "forward_train L (params (l_model t)) (l_rng t) x = Inr (out, r')"
    and sh: "same_shape out x"
    and m: "l_model t' = \<lparr>params = fst (update L x (params (l_model t)) (l_opt t) (l_rng t)),
                           training = True\<rparr>"
    and sc: "l_score t' = Some (torch_mean_dim1 (sq_diff out x))"
    and h: "l_hist t' = l_hist t @
       [\<lparr>it_params = params (l_model t), it_opt = l_opt t, it_rng = l_rng t, it_out = out,
         it_loss = mean_all (sq_diff out x), it_score = torch_mean_dim1 (sq_diff out x),
         it_after = fst (update L x (params (l_model t)) (l_opt t) (l_rng t))\<rparr>]"
    by (rule epoch_body_Inr)
  have "entry_ok L x \<lparr>it_params = params (l_model t), it_opt = l_opt t, it_rng = l_rng t,
         it_out = out, it_loss = mean_all (sq_diff out x),
         it_score = torch_mean_dim1 (sq_diff out x),
         it_after = fst (update L x (params (l_model t)) (l_opt t) (l_rng t))\<rparr>"
    using fw sh by (simp add: entry_ok_def)
  then show ?thesis
    using assms(1) by (simp add: loop_inv_def h m sc starts_from_snoc)
qed

lemma fit_loop_inv:
  assumes "fit L pds st r G = Inr res"
  obtains p r1 s score where
    "MLP L (channel_list st (data_x G)) (dropout st) (act st \<noteq> None) False r = Inr (p, r1)"
    "loop_inv L (data_x G) p (nat (epoch st)) s"
    "history res = l_hist s" "l_score s = Some score"
    "pds (st\<lparr>model := Some (l_model s), decision_scores := Some score\<rparr>) = Inr (fitted res)"
    "1 \<le> epoch st"
proof -
  from assms obtain p r1 opt s score where
    mlp: "MLP L (channel_list st (data_x G)) (dropout st) (act st \<noteq> None) False r = Inr (p, r1)"
    and loop: "train_loop L (verbose st) (data_x G) (data_y G) (nat (epoch st)) 0
       \<lparr>l_model = \<lparr>params = p, training = True\<rparr>, l_opt = opt, l_rng = r1, l_score = None,
        l_stdout = [], l_hist = []\<rparr> = Inr s"
    and sc: "l_score s = Some score"
    and pd: "pds (st\<lparr>model := Some (l_model s), decision_scores := Some score\<rparr>) = Inr (fitted res)"
    and h: "history res = l_hist s"
    by (rule fit_Inr)
  have "loop_inv L (data_x G) p 0 \<lparr>l_model = \<lparr>params = p, training = True\<rparr>, l_opt = opt,
          l_rng = r1, l_score = None, l_stdout = [], l_hist = []\<rparr>"
    by (simp add: loop_inv_def)
  from train_loop_invariant [where I = "loop_inv L (data_x G) p", OF loop this loop_inv_step]
  have inv: "loop_inv L (data_x G) p (nat (epoch st)) s" by simp
  have "nat (epoch st) \<noteq> 0"
  proof
    assume "nat (epoch st) = 0"
    with loop have "l_score s = None" by auto
    with sc show False by simp
  qed
  then have "1 \<le> epoch st" by simp
  with mlp inv h sc pd show thesis by (rule that)
qed

section \<open>fit with no epoch\<close>

text \<open>
  C9. With \<open>epoch = 0\<close> (or below) the loop body never runs, the local variable \<open>score\<close> is
  never assigned, and \<open>fit\<close> raises: \<open>UnboundLocalError\<close> at
  \<open>self.decision_scores_ = score\<close> when the constructors of the network and of the
  optimiser have succeeded, their error otherwise. So a \<open>fit\<close> that returns has
  \<open>epoch \<ge> 1\<close>.
\<close>

theorem fit_epoch_zero:
  assumes "epoch st \<le> 0"
  shows "isl (fit L pds st r G)
     \<and> (\<forall>p r1 opt.
          MLP L (channel_list st (data_x G)) (dropout st) (act st \<noteq> None) False r = Inr (p, r1)
          \<longrightarrow> Adam L p (lr st) (weight_decay st) = Inr opt
          \<longrightarrow> fit L pds st r G = Inl UnboundLocalError)"
proof -
  from assms have n: "nat (epoch st) = 0" by simp
  show ?thesis
    unfolding fit_def process_graph_def to_device_def
    by (auto simp: n split: sum.splits prod.splits)
qed

theorem fit_epoch_zero_witness:
  "epoch (toy_detector 0 False) \<le> 0
   \<and> fit toy_torch toy_pds (toy_detector 0 False) 0 toy_G = Inl UnboundLocalError"
proof -
  have h: "epoch (toy_detector 0 False) \<le> 0" by (simp add: toy_detector_def)
  have m: "MLP toy_torch (channel_list (toy_detector 0 False) (data_x toy_G))
             (dropout (toy_detector 0 False)) (act (toy_detector 0 False) \<noteq> None) False 0
           = Inr (0, 1)"
    by (simp add: toy_torch_def channel_list_def append_hidden_replicate)
  have a: "Adam toy_torch 0 (lr (toy_detector 0 False)) (weight_decay (toy_detector 0 False)) = Inr (1 / 2)"
    by (simp add: toy_torch_def toy_detector_def)
  show ?thesis
    using h m a fit_epoch_zero [OF h, of toy_torch toy_pds 0 toy_G] by blast
qed

section \<open>The number of training iterations\<close>



section \<open>The loss of a training iteration\<close>

text \<open>
  C6. In every iteration of a \<open>fit\<close> that returns, on features \<open>x\<close> of shape \<open>N x d\<close> with
  \<open>N > 0\<close> and \<open>d > 0\<close>: the output is the training-mode forward pass of the current
  parameters on \<open>x\<close>; the loss is the mean squared error between this output and \<open>x\<close>,
  the mean over all entries of the squared element-wise difference; the parameters are
  updated by the optimiser's step along the gradient of a loss function that is this
  mean squared error on every output of the shape of \<open>x\<close>.
\<close>

theorem fit_loss_is_mse:
  assumes "fit L pds st r G = Inr res"
    and "wf_tensor (data_x G)" and "0 < nrows (data_x G)" and "0 < ncols (data_x G)"
    and "e \<in> set (history res)"
  shows "(\<exists>r'. forward_train L (it_params e) (it_rng e) (data_x G) = Inr (it_out e, r'))
     \<and> it_loss e = mean_squared_error (it_out e) (data_x G)
     \<and> it_after e = fst (step L (it_opt e)
          (backward L (\<lambda>out. mean_all (sq_diff out (data_x G))) (it_params e) (it_rng e)
             (data_x G))
          (it_params e))
     \<and> (\<forall>out. same_shape out (data_x G)
           \<longrightarrow> mean_all (sq_diff out (data_x G)) = mean_squared_error out (data_x G))"
proof -
  from assms(1) obtain p s where
    inv: "loop_inv L (data_x G) p (nat (epoch st)) s" and h: "history res = l_hist s"
    by (rule fit_loop_inv)
  have ok: "entry_ok L (data_x G) e"
    using inv h assms(5) by (simp add: loop_inv_def list_all_iff)
  then have "same_shape (it_out e) (data_x G)" by (simp add: entry_ok_def)
  then have "mean_all (sq_diff (it_out e) (data_x G)) = mean_squared_error (it_out e) (data_x G)"
    using assms(2) by (rule mean_all_sq_diff)
  moreover have "\<exists>r'. forward_train L (it_params e) (it_rng e) (data_x G) = Inr (it_out e, r')"
    using ok by (auto simp: entry_ok_def split: sum.splits)
  ultimately show ?thesis
    using ok assms(2) by (simp add: entry_ok_def update_def mean_all_sq_diff)
qed

theorem fit_loss_is_mse_witness:
  "fit toy_torch toy_pds (toy_detector 2 True) 0 toy_G = Inr (toy_run 2 True)
   \<and> wf_tensor (data_x toy_G) \<and> 0 < nrows (data_x toy_G) \<and> 0 < ncols (data_x toy_G)
   \<and> last (history (toy_run 2 True)) \<in> set (history (toy_run 2 True))
   \<and> it_loss (last (history (toy_run 2 True)))
       = mean_squared_error (it_out (last (history (toy_run 2 True)))) (data_x toy_G)
   \<and> it_loss (last (history (toy_run 2 True))) = 1 / 8"
proof -
  have "length (history (toy_run 2 True)) = 2" by code_simp
  then have "history (toy_run 2 True) \<noteq> []" by auto
  then have mem: "last (history (toy_run 2 True)) \<in> set (history (toy_run 2 True))" by simp
  have val: "it_loss (last (history (toy_run 2 True))) = 1 / 8" by code_simp
  have "it_loss (last (history (toy_run 2 True)))
       = mean_squared_error (it_out (last (history (toy_run 2 True)))) (data_x toy_G)"
    using fit_loss_is_mse [OF toy_fit_verbose toy_G_shape mem] by blast
  then show ?thesis
    using toy_fit_verbose toy_G_shape mem val by simp
qed

section \<open>The scores stored by fit\<close>

text \<open>
  C7. After a \<open>fit\<close> that returns, on features \<open>x\<close> of shape \<open>N x d\<close> with \<open>d > 0\<close>, and
  with a \<open>_process_decision_scores\<close> that leaves \<open>decision_scores_\<close> as it is: the
  stored \<open>decision_scores_\<close> are the reconstruction errors of the last iteration, one per
  node, each the mean over the feature dimensions of the squared difference between
  that iteration's output (the forward pass before that iteration's update) and \<open>x\<close>.
\<close>

theorem fit_decision_scores:
  assumes "fit L pds st r G = Inr res"
    and "keeps_scores pds"
    and "wf_tensor (data_x G)" and "0 < ncols (data_x G)"
  shows "history res \<noteq> [] \<and> int (length (history res)) = epoch st
     \<and> (\<exists>r'. forward_train L (it_params (last (history res))) (it_rng (last (history res)))
                (data_x G) = Inr (it_out (last (history res)), r'))
     \<and> (\<exists>scores. decision_scores (fitted res) = Some scores
           \<and> length scores = nrows (data_x G)
           \<and> (\<forall>i<nrows (data_x G).
                 scores ! i = reconstruction_error (it_out (last (history res))) (data_x G) i))"
proof -
  from assms(1) obtain p s score where
    inv: "loop_inv L (data_x G) p (nat (epoch st)) s"
    and h: "history res = l_hist s" and sc: "l_score s = Some score"
    and pd: "pds (st\<lparr>model := Some (l_model s), decision_scores := Some score\<rparr>) = Inr (fitted res)"
    and ep: "1 \<le> epoch st"
    by (rule fit_loop_inv)
  have len: "int (length (history res)) = epoch st"
    using inv h ep by (simp add: loop_inv_def)
  with ep have ne: "history res \<noteq> []" by auto
  let ?e = "last (history res)"
  have "?e \<in> set (history res)" using ne by simp
  then have ok: "entry_ok L (data_x G) ?e"
    using inv h by (simp add: loop_inv_def list_all_iff)
  have fw: "\<exists>r'. forward_train L (it_params ?e) (it_rng ?e) (data_x G) = Inr (it_out ?e, r')"
    using ok by (auto simp: entry_ok_def split: sum.splits)
  have sh: "same_shape (it_out ?e) (data_x G)" using ok by (simp add: entry_ok_def)
  have "score = it_score ?e"
    using inv h sc ne by (simp add: loop_inv_def)
  then have score: "score = torch_mean_dim1 (sq_diff (it_out ?e) (data_x G))"
    using ok by (simp add: entry_ok_def)
  have "decision_scores (fitted res) = Some score"
    using assms(2) pd unfolding keeps_scores_def by fastforce
  then show ?thesis
    using ne len fw torch_mean_dim1_sq_diff [OF sh assms(3)] by (simp add: score)
qed

theorem fit_decision_scores_witness:
  "fit toy_torch toy_pds (toy_detector 2 False) 0 toy_G = Inr (toy_run 2 False)
   \<and> keeps_scores toy_pds
   \<and> wf_tensor (data_x toy_G) \<and> 0 < ncols (data_x toy_G)
   \<and> (\<exists>scores. decision_scores (fitted (toy_run 2 False)) = Some scores
         \<and> length scores = nrows (data_x toy_G)
         \<and> (\<forall>i<nrows (data_x toy_G).
               scores ! i = reconstruction_error (it_out (last (history (toy_run 2 False))))
                              (data_x toy_G) i))
   \<and> decision_scores (fitted (toy_run 2 False)) = Some [1 / 8, 1 / 8]"
proof -
  note keeps = toy_pds_keeps(1)
  have val: "decision_scores (fitted (toy_run 2 False)) = Some [1 / 8, 1 / 8]" by code_simp
  show ?thesis
    using toy_fit_two keeps toy_G_shape(1,3) val
      fit_decision_scores [OF toy_fit_two keeps toy_G_shape(1,3)]
    by simp
qed

section \<open>Logging the AUC\<close>






section \<open>What decision_function changes\<close>

text \<open>
  C10, as amended. On a fitted object \<open>decision_function\<close> changes nothing but the mode
  flag of the network, which \<open>self.model.eval()\<close> clears: the parameters, the stored
  \<open>decision_scores_\<close>, every other attribute and the random state are as before, whether
  the call returns scores or raises. On a network that is already in evaluation mode
  the call changes nothing.
\<close>

theorem decision_function_frame:
  assumes "model st = Some m"
  shows "snd (decision_function L st r G) = (st\<lparr>model := Some (m\<lparr>training := False\<rparr>)\<rparr>, r)
     \<and> (\<not> training m \<longrightarrow> snd (decision_function L st r G) = (st, r))"
proof -
  have "snd (decision_function L st r G) = (st\<lparr>model := Some (m\<lparr>training := False\<rparr>)\<rparr>, r)"
    using assms
    by (simp add: decision_function_def check_is_fitted_def hasattr_def process_graph_def
          to_device_def module_call_def eval_mode_def Let_def split: sum.splits prod.splits)
  moreover have "\<not> training m \<Longrightarrow> st\<lparr>model := Some (m\<lparr>training := False\<rparr>)\<rparr> = st"
    using assms by simp
  ultimately show ?thesis by simp
qed

theorem decision_function_frame_witness:
  "model (fitted (toy_run 1 False)) = Some \<lparr>params = 1 / 2, training = True\<rparr>
   \<and> snd (decision_function toy_torch (fitted (toy_run 1 False)) 0 toy_G)
       = ((fitted (toy_run 1 False))\<lparr>model := Some \<lparr>params = 1 / 2, training = False\<rparr>\<rparr>, 0)"
  using toy_model_fitted
    decision_function_frame [OF toy_model_fitted, of toy_torch 0 toy_G]
  by simp

text \<open>
  C10 as stated fails: \<open>fit\<close> leaves the network in training mode, and the first
  \<open>decision_function\<close> after it leaves it in evaluation mode.
\<close>

theorem decision_function_frame_counterexample:
  "model (fitted (toy_run 1 False)) = Some \<lparr>params = 1 / 2, training = True\<rparr>
   \<and> model (fst (snd (decision_function toy_torch (fitted (toy_run 1 False)) 0 toy_G)))
       = Some \<lparr>params = 1 / 2, training = False\<rparr>
   \<and> fst (snd (decision_function toy_torch (fitted (toy_run 1 False)) 0 toy_G))
       \<noteq> fitted (toy_run 1 False)"
proof -
  have after: "model (fst (snd (decision_function toy_torch (fitted (toy_run 1 False)) 0 toy_G)))
       = Some \<lparr>params = 1 / 2, training = False\<rparr>"
    by code_simp
  have "fst (snd (decision_function toy_torch (fitted (toy_run 1 False)) 0 toy_G))
       \<noteq> fitted (toy_run 1 False)"
  proof
    assume "fst (snd (decision_function toy_torch (fitted (toy_run 1 False)) 0 toy_G))
       = fitted (toy_run 1 False)"
    then have "model (fst (snd (decision_function toy_torch (fitted (toy_run 1 False)) 0 toy_G)))
       = model (fitted (toy_run 1 False))"
      by simp
    with after toy_model_fitted show False by simp
  qed
  with after toy_model_fitted show ?thesis by simp
qed

section \<open>Two runs from the same random state\<close>




end
